theory Spec2Isabelle
  imports Complex_Main
begin

section \<open>Swap-intent resolver (app/components/swap/LiFiWidgetWrapper.tsx)\<close>

text \<open>
  The handler \<open>handleTokenSelect\<close> receives a token picked in the search bar together
  with the side of the swap it was picked for, and drives the embedded widget through
  \<open>formRef.current.setFieldValue\<close>. The model keeps the handler's constants, its two
  boolean tests and its branch order. JavaScript strings are lists of code units; the
  addresses handled here are ASCII. Chain identifiers are integers.
\<close>

record Token =
  address :: string
  symbol :: string
  name :: string
  decimals :: int
  logoURI :: "string option"
  chainId :: int

datatype side = sell | buy

definition SOLANA_USDC :: string where
  "SOLANA_USDC = ''EPjFWdd5AufqSSqeM2qN1xzybapC8G4wEGGkZwyTDt1v''"

definition SOLANA_CHAIN_ID_TOKENSEARCH :: int where
  "SOLANA_CHAIN_ID_TOKENSEARCH = 101"

definition SOLANA_CHAIN_ID_LIFI :: int where
  "SOLANA_CHAIN_ID_LIFI = 1151111081099710"

definition ETHEREUM_USDC :: string where
  "ETHEREUM_USDC = ''0xA0b86991c6218b36c1d19D4a2e9Eb0cE3606eB48''"

definition ETHEREUM_CHAIN_ID :: int where
  "ETHEREUM_CHAIN_ID = 1"

text \<open>
  \<open>String.prototype.toLowerCase\<close> on code units: the letters A to Z move to a to z,
  every other unit of the 8-bit range used here stays.
\<close>

definition toLowerCaseUnit :: "char \<Rightarrow> char" where
  "toLowerCaseUnit c =
     (if 65 \<le> (of_char c :: nat) \<and> (of_char c :: nat) \<le> 90
      then char_of ((of_char c :: nat) + 32) else c)"

definition toLowerCase :: "string \<Rightarrow> string" where
  "toLowerCase s = map toLowerCaseUnit s"

text \<open>The two tests of lines 95 and 97.\<close>

definition isPrivateStock :: "Token \<Rightarrow> bool" where
  "isPrivateStock t = (chainId t = SOLANA_CHAIN_ID_TOKENSEARCH)"

definition isPublicTokenizedStock :: "Token \<Rightarrow> bool" where
  "isPublicTokenizedStock t =
     (chainId t = ETHEREUM_CHAIN_ID \<and> toLowerCase (address t) \<noteq> toLowerCase ETHEREUM_USDC)"

text \<open>
  The category of a token is the branch that the \<open>if / else if / else\<close> chain of the
  buy side takes (lines 105, 118, 130).
\<close>

datatype AssetCategory = PrivateRestrictedAsset | PublicTokenizedEquity | Ordinary

definition classify :: "Token \<Rightarrow> AssetCategory" where
  "classify t =
     (if isPrivateStock t then PrivateRestrictedAsset
      else if isPublicTokenizedStock t then PublicTokenizedEquity
      else Ordinary)"

text \<open>
  One call \<open>setFieldValue(field, value, { setUrlSearchParam: true })\<close>. The value is a
  number for the chain fields and a string for the token fields.
\<close>

datatype fieldName = fromChain | fromToken | toChain | toToken | fromAmount

datatype fieldValue = NumberValue int | StringValue string

record setFieldValueCall =
  field :: fieldName
  val :: fieldValue
  setUrlSearchParam :: bool

definition setField :: "fieldName \<Rightarrow> fieldValue \<Rightarrow> setFieldValueCall" where
  "setField f v = \<lparr>field = f, val = v, setUrlSearchParam = True\<rparr>"

text \<open>
  \<open>handleTokenSelect ready t ty\<close> is the sequence of \<open>setFieldValue\<close> calls the handler
  makes, in program order; \<open>ready\<close> says whether \<open>formRef.current\<close> is non-null. When it
  is null the handler warns and returns (lines 89 to 92).
\<close>

definition handleTokenSelect :: "bool \<Rightarrow> Token \<Rightarrow> side \<Rightarrow> setFieldValueCall list" where
  "handleTokenSelect ready t ty =
     (if \<not> ready then []
      else if ty = sell then
        [setField fromChain (NumberValue (chainId t)),
         setField fromToken (StringValue (address t))]
      else if isPrivateStock t then
        [setField fromChain (NumberValue SOLANA_CHAIN_ID_LIFI),
         setField fromToken (StringValue SOLANA_USDC),
         setField toChain (NumberValue SOLANA_CHAIN_ID_LIFI),
         setField toToken (StringValue (address t))]
      else if isPublicTokenizedStock t then
        [setField fromChain (NumberValue ETHEREUM_CHAIN_ID),
         setField fromToken (StringValue ETHEREUM_USDC),
         setField toChain (NumberValue ETHEREUM_CHAIN_ID),
         setField toToken (StringValue (address t))]
      else
        [setField toChain (NumberValue (chainId t)),
         setField toToken (StringValue (address t))])"

text \<open>
  Modelled from the spec: the form store of the embedded widget, a library the sources
  only call. The widget holds the live form, a store from field names to values, and a
  field-set command updates the one field it names. \<open>formAfter\<close> is the form once the
  widget has taken the handler's calls in order.
\<close>

type_synonym FormState = "fieldName \<Rightarrow> fieldValue"

definition setFieldValue :: "FormState \<Rightarrow> setFieldValueCall \<Rightarrow> FormState" where
  "setFieldValue form c = form(field c := val c)"

definition formAfter :: "bool \<Rightarrow> FormState \<Rightarrow> Token \<Rightarrow> side \<Rightarrow> FormState" where
  "formAfter ready form t ty = foldl setFieldValue form (handleTokenSelect ready t ty)"

text \<open>The fields the widget starts from (lines 73 to 77 of the configuration).\<close>

definition config :: FormState where
  "config f =
     (case f of
        fromChain \<Rightarrow> NumberValue ETHEREUM_CHAIN_ID
      | toChain \<Rightarrow> NumberValue ETHEREUM_CHAIN_ID
      | fromToken \<Rightarrow> StringValue ETHEREUM_USDC
      | toToken \<Rightarrow> StringValue ''0x2d1f7226bd1f780af6b9a49dcc0ae00e8df4bdee''
      | fromAmount \<Rightarrow> StringValue ''100'')"

section \<open>Market-data aggregator (app/api/solana/token-data/route.ts)\<close>

subsection \<open>Numbers\<close>

text \<open>
  A JavaScript number is an IEEE 754 double: a finite value, NaN or one of the two
  infinities. \<open>Num x\<close> is the finite double whose value is the rational \<open>x\<close>; the two zeros
  are one value, since nothing here tells them apart. \<open>truthy\<close> is the test that \<open>||\<close> and
  \<open>if\<close> apply to a number, \<open>geq\<close> and \<open>greater\<close> compare with a finite constant.
\<close>

datatype number = Num rat | NaN | PosInfinity | NegInfinity

fun truthy :: "number \<Rightarrow> bool" where
  "truthy (Num x) = (x \<noteq> 0)"
| "truthy NaN = False"
| "truthy PosInfinity = True"
| "truthy NegInfinity = True"

fun isNaN :: "number \<Rightarrow> bool" where
  "isNaN NaN = True"
| "isNaN (Num x) = False"
| "isNaN PosInfinity = False"
| "isNaN NegInfinity = False"

fun geq :: "number \<Rightarrow> rat \<Rightarrow> bool" where
  "geq (Num x) c = (c \<le> x)"
| "geq NaN c = False"
| "geq PosInfinity c = True"
| "geq NegInfinity c = False"

fun greater :: "number \<Rightarrow> rat \<Rightarrow> bool" where
  "greater (Num x) c = (c < x)"
| "greater NaN c = False"
| "greater PosInfinity c = True"
| "greater NegInfinity c = False"

text \<open>
  Arithmetic rounds its exact result to the nearest double, to the one with the even
  significand on a tie. A positive rational \<open>a\<close> lies in one binade,
  \<open>2^E \<le> a < 2^(E+1)\<close> with \<open>E = ilog2 a\<close>; the doubles there are the multiples of
  \<open>2^(E-52)\<close>, and below \<open>2^(-1022)\<close> the multiples of \<open>2^(-1074)\<close>. A result that rounds
  to \<open>2^1024\<close> or more is infinite.
\<close>

function bitLength :: "nat \<Rightarrow> nat" where
  "bitLength n = (if n = 0 then 0 else Suc (bitLength (n div 2)))"
  by pat_completeness auto
termination
  by (relation "measure (\<lambda>n. n)") auto

declare bitLength.simps [simp del]

definition pow2 :: "int \<Rightarrow> rat" where
  "pow2 e = (if 0 \<le> e then 2 ^ nat e else 1 / 2 ^ nat (- e))"

definition ilog2 :: "rat \<Rightarrow> int" where
  "ilog2 a =
     (if 1 \<le> a then int (bitLength (nat \<lfloor>a\<rfloor>)) - 1
      else - int (bitLength (nat (\<lceil>1 / a\<rceil> - 1))))"

definition roundHalfEven :: "rat \<Rightarrow> int" where
  "roundHalfEven z =
     (if z - of_int \<lfloor>z\<rfloor> < 1 / 2 then \<lfloor>z\<rfloor>
      else if 1 / 2 < z - of_int \<lfloor>z\<rfloor> then \<lfloor>z\<rfloor> + 1
      else if even \<lfloor>z\<rfloor> then \<lfloor>z\<rfloor> else \<lfloor>z\<rfloor> + 1)"

definition roundToDouble :: "rat \<Rightarrow> number" where
  "roundToDouble r =
     (if r = 0 then Num 0
      else
        (let a = \<bar>r\<bar>;
             e = max (ilog2 a - 52) (- 1074);
             d = of_int (roundHalfEven (a / pow2 e)) * pow2 e
         in if 2 ^ 1024 \<le> d then (if r < 0 then NegInfinity else PosInfinity)
            else Num (if r < 0 then - d else d)))"

text \<open>\<open>divideBy v c\<close> is \<open>v / c\<close> for a finite constant \<open>c\<close> that is positive.\<close>

fun divideBy :: "number \<Rightarrow> rat \<Rightarrow> number" where
  "divideBy (Num x) c = roundToDouble (x / c)"
| "divideBy NaN c = NaN"
| "divideBy PosInfinity c = PosInfinity"
| "divideBy NegInfinity c = NegInfinity"

text \<open>The decimal digits of a natural number, most significant first.\<close>

definition digitChar :: "nat \<Rightarrow> char" where
  "digitChar d = char_of (48 + d)"

function digits :: "nat \<Rightarrow> string" where
  "digits n = (if n < 10 then [digitChar n] else digits (n div 10) @ [digitChar (n mod 10)])"
  by pat_completeness auto
termination
  by (relation "measure (\<lambda>n. n)") auto

declare digits.simps [simp del]

text \<open>Reading a decimal numeral back: the check that \<open>digits\<close> writes base ten.\<close>

definition digitValue :: "char \<Rightarrow> nat" where
  "digitValue c = of_char c - 48"

definition decimalValue :: "string \<Rightarrow> nat" where
  "decimalValue s = foldl (\<lambda>a c. 10 * a + digitValue c) 0 s"

text \<open>
  \<open>Number.prototype.toFixed(0)\<close>: a value that is not finite prints as its name; a finite
  one prints its sign, then the integer nearest to its magnitude, the larger one on a
  tie; from \<open>10^21\<close> on the magnitude prints as \<open>Number.prototype.toString\<close> prints
  it, which is the parameter \<open>numberToString\<close>.
\<close>

definition toFixed0 :: "(rat \<Rightarrow> string) \<Rightarrow> number \<Rightarrow> string" where
  "toFixed0 numberToString v =
     (case v of
        NaN \<Rightarrow> ''NaN''
      | PosInfinity \<Rightarrow> ''Infinity''
      | NegInfinity \<Rightarrow> ''-Infinity''
      | Num x \<Rightarrow>
          (if x < 0 then ''-'' else []) @
          (if 10 ^ 21 \<le> \<bar>x\<bar> then numberToString \<bar>x\<bar>
           else digits (nat \<lfloor>\<bar>x\<bar> + 1 / 2\<rfloor>)))"

subsection \<open>formatMarketCap\<close>

definition formatMarketCap :: "(rat \<Rightarrow> string) \<Rightarrow> number \<Rightarrow> string" where
  "formatMarketCap numberToString v =
     (if geq v 1000000000000 then
        ''$'' @ toFixed0 numberToString (divideBy v 1000000000000) @ ''T''
      else if geq v 1000000000 then
        ''$'' @ toFixed0 numberToString (divideBy v 1000000000) @ ''B''
      else if geq v 1000000 then
        ''$'' @ toFixed0 numberToString (divideBy v 1000000) @ ''M''
      else if geq v 1000 then
        ''$'' @ toFixed0 numberToString (divideBy v 1000) @ ''K''
      else ''$'' @ toFixed0 numberToString v)"



subsection \<open>Providers\<close>

text \<open>
  A call either throws or returns. \<open>null\<close> and \<open>undefined\<close> are both \<open>None\<close>: the route
  treats them alike at every use (\<open>?.\<close>, \<open>||\<close>, \<open>if\<close>, and the explicit tests of lines 137
  and 168).
\<close>

datatype 'a outcome = Throws | Returns 'a

record coingeckoData =
  total_volume :: "number option"
  market_cap :: "number option"
  price_change_percentage_24h :: "number option"

record quote =
  regularMarketChangePercent :: "number option"
  changePercent :: "number option"

text \<open>
  The functions the route imports and does not define: the price-index lookup of
  \<open>lib/api/coingecko\<close>, the three token helpers of \<open>lib/utils/token\<close>, the dynamic import of
  \<open>yahoo-finance2\<close> and its \<open>quote\<close>. They are parameters. \<open>'tok\<close> is the type of
  \<open>tokenMetadata.token\<close>; \<open>getTokenMetadata\<close> returns \<open>None\<close> when there is no metadata.
\<close>

record 'tok providers =
  fetchTokenPriceByAddress :: "int \<Rightarrow> string \<Rightarrow> coingeckoData option outcome"
  getTokenMetadata :: "string \<Rightarrow> 'tok option outcome"
  isTokenizedStock :: "'tok \<Rightarrow> bool outcome"
  getStockTicker :: "'tok \<Rightarrow> string option outcome"
  importYahooFinance :: "unit outcome"
  yfQuote :: "string \<Rightarrow> quote option outcome"

text \<open>
  What one run leaves behind besides its value: the requests sent to the two outside
  providers, and the console lines written (each keeps the address it names).
\<close>

datatype providerCall = CoinGeckoCall int string | YahooQuoteCall string

datatype consoleCall = console_debug string | console_error string

subsection \<open>The disabled venue lookups\<close>

definition fetchJupiterMarketCap :: "string \<Rightarrow> string option" where
  "fetchJupiterMarketCap tokenAddress = None"

definition fetchJupiterLiquidity :: "string \<Rightarrow> number option" where
  "fetchJupiterLiquidity tokenAddress = None"

subsection \<open>One token of the batch\<close>

record tokenData =
  address :: string
  tvlUSD :: "number option"
  volumeUSD :: number
  marketCap :: "number option"
  marketCapFormatted :: "string option"
  priceChange24h :: "number option"

text \<open>
  \<open>quote.regularMarketChangePercent || quote.changePercent\<close>, kept when it is a number
  other than NaN (lines 151 and 152); \<open>cur\<close> is the value \<open>priceChange24h\<close> holds so far.
\<close>

definition quotePctChange :: "number option \<Rightarrow> quote \<Rightarrow> number option" where
  "quotePctChange cur q =
     (let yfinancePctChange =
            (case regularMarketChangePercent q of
               Some a \<Rightarrow> if truthy a then Some a else changePercent q
             | None \<Rightarrow> changePercent q)
      in case yfinancePctChange of
           Some n \<Rightarrow> if \<not> isNaN n then Some n else cur
         | None \<Rightarrow> cur)"

text \<open>
  Lines 138 to 165: the fallback to the market-quotes provider. The result is the new
  value of \<open>priceChange24h\<close>, the provider requests made and the console lines written.
\<close>

definition yfinanceFallback ::
  "'tok providers \<Rightarrow> string \<Rightarrow> number option \<Rightarrow>
     number option \<times> providerCall list \<times> consoleCall list" where
  "yfinanceFallback p addr cur =
     (case getTokenMetadata p addr of
        Throws \<Rightarrow> (cur, [], [console_debug addr])
      | Returns None \<Rightarrow> (cur, [], [])
      | Returns (Some tok) \<Rightarrow>
          (case isTokenizedStock p tok of
             Throws \<Rightarrow> (cur, [], [console_debug addr])
           | Returns False \<Rightarrow> (cur, [], [])
           | Returns True \<Rightarrow>
               (case getStockTicker p tok of
                  Throws \<Rightarrow> (cur, [], [console_debug addr])
                | Returns None \<Rightarrow> (cur, [], [])
                | Returns (Some ticker) \<Rightarrow>
                    if ticker = [] then (cur, [], [])
                    else
                      (case importYahooFinance p of
                         Throws \<Rightarrow> (cur, [], [console_debug addr])
                       | Returns u \<Rightarrow>
                           (case yfQuote p ticker of
                              Throws \<Rightarrow> (cur, [YahooQuoteCall ticker], [console_debug addr])
                            | Returns None \<Rightarrow> (cur, [YahooQuoteCall ticker], [])
                            | Returns (Some q) \<Rightarrow>
                                (quotePctChange cur q, [YahooQuoteCall ticker], []))))))"

text \<open>
  Lines 104 to 181: the callback that \<open>addresses.map\<close> runs for one address. A throw of
  the price-index lookup reaches the catch of line 173.
\<close>

definition tokenWork ::
  "'tok providers \<Rightarrow> string \<Rightarrow> tokenData \<times> providerCall list \<times> consoleCall list" where
  "tokenWork p addr =
     (let jupiterLiquidity = fetchJupiterLiquidity addr;
          jupiterMarketCapFormatted = fetchJupiterMarketCap addr
      in case fetchTokenPriceByAddress p 101 addr of
           Throws \<Rightarrow>
             (\<lparr>address = addr, tvlUSD = None, volumeUSD = Num 0, marketCap = None,
               marketCapFormatted = None, priceChange24h = None\<rparr>,
              [CoinGeckoCall 101 addr], [console_error addr])
         | Returns coingecko \<Rightarrow>
             (let volume =
                    (case Option.bind coingecko total_volume of
                       Some v \<Rightarrow> if truthy v then v else Num 0
                     | None \<Rightarrow> Num 0);
                  tvl =
                    (case jupiterLiquidity of
                       Some l \<Rightarrow> if greater l 0 then Some l else None
                     | None \<Rightarrow> None);
                  formatted =
                    (case jupiterMarketCapFormatted of
                       Some s \<Rightarrow> if s \<noteq> [] then Some s else None
                     | None \<Rightarrow> None);
                  cap =
                    (if formatted \<noteq> None then None
                     else case Option.bind coingecko market_cap of
                            Some m \<Rightarrow> if truthy m then Some m else None
                          | None \<Rightarrow> None);
                  cur = Option.bind coingecko price_change_percentage_24h;
                  (priceChange, sent, written) =
                    (if (case cur of None \<Rightarrow> True | Some n \<Rightarrow> isNaN n) \<and> addr \<noteq> []
                     then yfinanceFallback p addr cur
                     else (cur, [], []));
                  change =
                    (case priceChange of
                       Some n \<Rightarrow> if \<not> isNaN n then Some n else None
                     | None \<Rightarrow> None)
              in (\<lparr>address = addr, tvlUSD = tvl, volumeUSD = volume, marketCap = cap,
                   marketCapFormatted = formatted, priceChange24h = change\<rparr>,
                  CoinGeckoCall 101 addr # sent, written)))"

subsection \<open>The route handler\<close>

text \<open>
  The parsed request body is a JSON value; an object keeps its members as pairs, one
  pair for each key.
\<close>

datatype json =
    JNull
  | JBool bool
  | JNumber rat
  | JString string
  | JArray "json list"
  | JObject "(string \<times> json) list"

text \<open>
  \<open>const { addresses } = body\<close>: reading the member throws on \<open>null\<close>; on an object it is
  the member's value or \<open>undefined\<close> (\<open>None\<close>); no other JSON value has such a member.
\<close>

fun destructureAddresses :: "json \<Rightarrow> json option outcome" where
  "destructureAddresses JNull = Throws"
| "destructureAddresses (JObject members) = Returns (map_of members ''addresses'')"
| "destructureAddresses (JBool b) = Returns None"
| "destructureAddresses (JNumber n) = Returns None"
| "destructureAddresses (JString s) = Returns None"
| "destructureAddresses (JArray xs) = Returns None"

text \<open>
  \<open>String.prototype.trim\<close> strips white space and line terminators from both ends; in
  the 8-bit range these are the units 9 to 13, 32 and 160.
\<close>

definition isWhiteSpace :: "char \<Rightarrow> bool" where
  "isWhiteSpace c =
     ((9 \<le> (of_char c :: nat) \<and> (of_char c :: nat) \<le> 13)
      \<or> (of_char c :: nat) = 32 \<or> (of_char c :: nat) = 160)"

definition trim :: "string \<Rightarrow> string" where
  "trim s = rev (dropWhile isWhiteSpace (rev (dropWhile isWhiteSpace s)))"

text \<open>The test of line 91 on one entry: a string that is not empty once trimmed.\<close>

fun nonEmptyString :: "json \<Rightarrow> bool" where
  "nonEmptyString (JString s) = (0 < length (trim s))"
| "nonEmptyString JNull = False"
| "nonEmptyString (JBool b) = False"
| "nonEmptyString (JNumber n) = False"
| "nonEmptyString (JArray xs) = False"
| "nonEmptyString (JObject members) = False"

fun stringOf :: "json \<Rightarrow> string" where
  "stringOf (JString s) = s"
| "stringOf JNull = []"
| "stringOf (JBool b) = []"
| "stringOf (JNumber n) = []"
| "stringOf (JArray xs) = []"
| "stringOf (JObject members) = []"

text \<open>
  The response: the body given to \<open>NextResponse.json\<close>, the status (200 when none is
  given) and the \<open>Cache-Control\<close> header when one is set.
\<close>

record response =
  status :: nat
  chainId :: int
  tokens :: "tokenData list"
  error :: "string option"
  cacheControl :: "string option"

record run =
  reply :: response
  sent :: "providerCall list"
  written :: "consoleCall list"

definition invalidAddresses :: response where
  "invalidAddresses =
     \<lparr>status = 400, chainId = 101, tokens = [],
      error = Some ''Invalid addresses. Must be a non-empty array of token addresses.'',
      cacheControl = None\<rparr>"

definition emptyAddress :: response where
  "emptyAddress =
     \<lparr>status = 400, chainId = 101, tokens = [],
      error = Some ''All addresses must be non-empty strings.'', cacheControl = None\<rparr>"

definition internalError :: response where
  "internalError =
     \<lparr>status = 500, chainId = 101, tokens = [],
      error = Some ''Internal server error'', cacheControl = None\<rparr>"

text \<open>
  \<open>Promise.all (addresses.map ...)\<close>: one callback per address, the results in the order
  of the addresses. The callbacks share nothing; what the providers answer to the
  callback of position \<open>i\<close> is \<open>world i\<close>, so two positions holding the same address may
  be answered differently. The requests and console lines of the callbacks are listed
  position by position.
\<close>

definition tokensWithData ::
  "(nat \<Rightarrow> 'tok providers) \<Rightarrow> string list \<Rightarrow>
     (tokenData \<times> providerCall list \<times> consoleCall list) list" where
  "tokensWithData world addrs =
     map (\<lambda>(i, addr). tokenWork (world i) addr) (enumerate 0 addrs)"

text \<open>
  \<open>POST world body\<close>: \<open>body\<close> is what \<open>request.json()\<close> gives, \<open>Throws\<close> when the request
  does not parse. Every throw outside the callbacks reaches the catch of line 195.
\<close>

definition POST :: "(nat \<Rightarrow> 'tok providers) \<Rightarrow> json outcome \<Rightarrow> run" where
  "POST world body =
     (case body of
        Throws \<Rightarrow> \<lparr>reply = internalError, sent = [], written = [console_error []]\<rparr>
      | Returns b \<Rightarrow>
          (case destructureAddresses b of
             Throws \<Rightarrow> \<lparr>reply = internalError, sent = [], written = [console_error []]\<rparr>
           | Returns addresses \<Rightarrow>
               (case addresses of
                  Some (JArray xs) \<Rightarrow>
                    if length xs = 0 then \<lparr>reply = invalidAddresses, sent = [], written = []\<rparr>
                    else if \<not> list_all nonEmptyString xs
                    then \<lparr>reply = emptyAddress, sent = [], written = []\<rparr>
                    else
                      (let results = tokensWithData world (map stringOf xs)
                       in \<lparr>reply =
                             \<lparr>status = 200, chainId = 101, tokens = map fst results,
                              error = None,
                              cacheControl = Some ''no-store, no-cache, must-revalidate''\<rparr>,
                           sent = concat (map (fst \<circ> snd) results),
                           written = concat (map (snd \<circ> snd) results)\<rparr>)
                | _ \<Rightarrow> \<lparr>reply = invalidAddresses, sent = [], written = []\<rparr>)))"

subsection \<open>The words of the specification\<close>

text \<open>
  A request is rejected when its \<open>addresses\<close> value is not a non-empty array, or when
  the array holds an entry that is not a string or is blank: made of white space only.
\<close>

definition blank :: "string \<Rightarrow> bool" where
  "blank s = list_all isWhiteSpace s"

fun notStringOrBlank :: "json \<Rightarrow> bool" where
  "notStringOrBlank (JString s) = blank s"
| "notStringOrBlank JNull = True"
| "notStringOrBlank (JBool b) = True"
| "notStringOrBlank (JNumber n) = True"
| "notStringOrBlank (JArray xs) = True"
| "notStringOrBlank (JObject members) = True"

definition notNonEmptyArray :: "json option \<Rightarrow> bool" where
  "notNonEmptyArray v = (case v of Some (JArray xs) \<Rightarrow> xs = [] | _ \<Rightarrow> True)"

definition hasBadEntry :: "json option \<Rightarrow> bool" where
  "hasBadEntry v = (case v of Some (JArray xs) \<Rightarrow> list_ex notStringOrBlank xs | _ \<Rightarrow> False)"

text \<open>
  A provider fails on a call that throws or that gives no data. The failure is total for
  an address when the price index fails on it and the market-quotes provider cannot be
  loaded or fails on every ticker.
\<close>

fun failed :: "'a option outcome \<Rightarrow> bool" where
  "failed Throws = True"
| "failed (Returns None) = True"
| "failed (Returns (Some x)) = False"

definition totalFailure :: "'tok providers \<Rightarrow> string \<Rightarrow> bool" where
  "totalFailure p addr =
     (failed (fetchTokenPriceByAddress p 101 addr)
      \<and> (importYahooFinance p = Throws \<or> (\<forall>ticker. failed (yfQuote p ticker))))"

definition bareRecord :: "string \<Rightarrow> tokenData" where
  "bareRecord addr =
     \<lparr>address = addr, tvlUSD = None, volumeUSD = Num 0, marketCap = None,
      marketCapFormatted = None, priceChange24h = None\<rparr>"



subsection \<open>Sample providers\<close>

text \<open>
  \<open>listed\<close>: a token the price index knows in full. \<open>down\<close>: every call throws.
  \<open>equity\<close>: the price index has volume and a zero market cap but no 24h change, the
  token is a tokenized stock with ticker NVDA, and the market-quotes request throws.
\<close>

definition listed :: "string providers" where
  "listed =
     \<lparr>fetchTokenPriceByAddress = (\<lambda>c a. Returns (Some
         \<lparr>total_volume = Some (Num 1000), market_cap = Some (Num 5000),
          price_change_percentage_24h = Some (Num (3 / 2))\<rparr>)),
      getTokenMetadata = (\<lambda>a. Returns None),
      isTokenizedStock = (\<lambda>t. Returns False),
      getStockTicker = (\<lambda>t. Returns None),
      importYahooFinance = Returns (),
      yfQuote = (\<lambda>t. Returns None)\<rparr>"

definition down :: "string providers" where
  "down =
     \<lparr>fetchTokenPriceByAddress = (\<lambda>c a. Throws),
      getTokenMetadata = (\<lambda>a. Throws),
      isTokenizedStock = (\<lambda>t. Throws),
      getStockTicker = (\<lambda>t. Throws),
      importYahooFinance = Throws,
      yfQuote = (\<lambda>t. Throws)\<rparr>"

definition equity :: "string providers" where
  "equity =
     \<lparr>fetchTokenPriceByAddress = (\<lambda>c a. Returns (Some
         \<lparr>total_volume = Some (Num 1000), market_cap = Some (Num 0),
          price_change_percentage_24h = None\<rparr>)),
      getTokenMetadata = (\<lambda>a. Returns (Some ''NVDAon'')),
      isTokenizedStock = (\<lambda>t. Returns True),
      getStockTicker = (\<lambda>t. Returns (Some ''NVDA'')),
      importYahooFinance = Returns (),
      yfQuote = (\<lambda>t. Throws)\<rparr>"

text \<open>The same answers at every position of a batch.\<close>

definition steady :: "nat \<Rightarrow> string providers" where
  "steady i = listed"

text \<open>
  A sample for the parameter \<open>numberToString\<close>: the exponent form of \<open>10^21\<close>, the one value
  from \<open>10^21\<close> on that the samples reach.
\<close>

definition sampleToString :: "rat \<Rightarrow> string" where
  "sampleToString x = ''1e+21''"

definition threeAddresses :: json where
  "threeAddresses =
     JObject [(''addresses'', JArray [JString ''A1'', JString ''B2'', JString ''C3''])]"

section \<open>Properties of the resolver\<close>

text \<open>
  C5. \<open>classify\<close> gives every token exactly one category: the private restricted one
  exactly when the chain identifier is 101, the public tokenized equity one exactly when
  the chain identifier is 1 and the address differs from Ethereum USDC once both are in
  lower case, the ordinary one exactly in the remaining case. It is a function of the
  token alone.
\<close>

theorem classify_categories:
  "(classify t = PrivateRestrictedAsset \<longleftrightarrow> Token.chainId t = 101)
   \<and> (classify t = PublicTokenizedEquity \<longleftrightarrow>
        (Token.chainId t = 1 \<and> toLowerCase (Token.address t) \<noteq> toLowerCase ETHEREUM_USDC))
   \<and> (classify t = Ordinary \<longleftrightarrow>
        (Token.chainId t \<noteq> 101
         \<and> \<not> (Token.chainId t = 1 \<and> toLowerCase (Token.address t) \<noteq> toLowerCase ETHEREUM_USDC)))"
  by (auto simp: classify_def isPrivateStock_def isPublicTokenizedStock_def
      SOLANA_CHAIN_ID_TOKENSEARCH_def ETHEREUM_CHAIN_ID_def)

theorem classify_categories_witness:
  "classify \<lparr>Token.address = ''0x2d1f7226bd1f780af6b9a49dcc0ae00e8df4bdee'', symbol = ''NVDAon'',
      name = ''NVIDIA Corp'', decimals = 18, logoURI = None, chainId = 1\<rparr> = PublicTokenizedEquity
   \<and> classify \<lparr>Token.address = ''0xa0b86991c6218b36c1d19d4a2e9eb0ce3606eb48'', symbol = ''USDC'',
      name = ''USD Coin'', decimals = 6, logoURI = None, chainId = 1\<rparr> = Ordinary
   \<and> classify \<lparr>Token.address = ''X'', symbol = ''S'', name = ''N'', decimals = 6,
      logoURI = None, chainId = 101\<rparr> = PrivateRestrictedAsset"
proof -
  have lower:
    "toLowerCase ''0x2d1f7226bd1f780af6b9a49dcc0ae00e8df4bdee'' \<noteq> toLowerCase ETHEREUM_USDC"
    "toLowerCase ''0xa0b86991c6218b36c1d19d4a2e9eb0ce3606eb48'' = toLowerCase ETHEREUM_USDC"
    by code_simp+
  show ?thesis
    using lower
      classify_categories [of "\<lparr>Token.address = ''0x2d1f7226bd1f780af6b9a49dcc0ae00e8df4bdee'',
        symbol = ''NVDAon'', name = ''NVIDIA Corp'', decimals = 18, logoURI = None, chainId = 1\<rparr>"]
      classify_categories [of "\<lparr>Token.address = ''0xa0b86991c6218b36c1d19d4a2e9eb0ce3606eb48'',
        symbol = ''USDC'', name = ''USD Coin'', decimals = 6, logoURI = None, chainId = 1\<rparr>"]
      classify_categories [of "\<lparr>Token.address = ''X'', symbol = ''S'', name = ''N'',
        decimals = 6, logoURI = None, chainId = 101\<rparr>"]
    by simp
qed

text \<open>
  C1, as the handler has it: when the form reference is ready, a buy selection of a token
  of the private restricted category makes exactly four \<open>setFieldValue\<close> calls, in this
  order: source chain to 1151111081099710, source token to Solana USDC, destination chain
  to 1151111081099710, destination token to the token's address. When the form reference
  is not ready it makes none.
\<close>

theorem private_buy_commands:
  assumes "classify t = PrivateRestrictedAsset"
  shows "(ready \<longrightarrow> handleTokenSelect ready t buy =
            [setField fromChain (NumberValue 1151111081099710),
             setField fromToken (StringValue ''EPjFWdd5AufqSSqeM2qN1xzybapC8G4wEGGkZwyTDt1v''),
             setField toChain (NumberValue 1151111081099710),
             setField toToken (StringValue (Token.address t))])
       \<and> (\<not> ready \<longrightarrow> handleTokenSelect ready t buy = [])"
  using assms
  by (simp add: handleTokenSelect_def classify_def SOLANA_USDC_def SOLANA_CHAIN_ID_LIFI_def
      split: if_splits)

theorem private_buy_commands_witness:
  "classify \<lparr>Token.address = ''X'', symbol = ''S'', name = ''N'', decimals = 6,
      logoURI = None, chainId = 101\<rparr> = PrivateRestrictedAsset
   \<and> handleTokenSelect True \<lparr>Token.address = ''X'', symbol = ''S'', name = ''N'', decimals = 6,
      logoURI = None, chainId = 101\<rparr> buy =
    [setField fromChain (NumberValue 1151111081099710),
     setField fromToken (StringValue ''EPjFWdd5AufqSSqeM2qN1xzybapC8G4wEGGkZwyTDt1v''),
     setField toChain (NumberValue 1151111081099710),
     setField toToken (StringValue ''X'')]"
proof -
  have c: "classify \<lparr>Token.address = ''X'', symbol = ''S'', name = ''N'', decimals = 6,
      logoURI = None, chainId = 101\<rparr> = PrivateRestrictedAsset"
    by (simp add: classify_def isPrivateStock_def SOLANA_CHAIN_ID_TOKENSEARCH_def)
  show ?thesis using c private_buy_commands [OF c, of True] by simp
qed

text \<open>
  With the form reference not ready the same selection makes no call at all: lines 89 to
  92 return before the first \<open>setFieldValue\<close>.
\<close>

theorem private_buy_dropped_counterexample:
  "classify \<lparr>Token.address = ''X'', symbol = ''S'', name = ''N'', decimals = 6,
      logoURI = None, chainId = 101\<rparr> = PrivateRestrictedAsset
   \<and> handleTokenSelect False \<lparr>Token.address = ''X'', symbol = ''S'', name = ''N'', decimals = 6,
      logoURI = None, chainId = 101\<rparr> buy = []
   \<and> handleTokenSelect False \<lparr>Token.address = ''X'', symbol = ''S'', name = ''N'', decimals = 6,
      logoURI = None, chainId = 101\<rparr> buy \<noteq>
    [setField fromChain (NumberValue 1151111081099710),
     setField fromToken (StringValue ''EPjFWdd5AufqSSqeM2qN1xzybapC8G4wEGGkZwyTDt1v''),
     setField toChain (NumberValue 1151111081099710),
     setField toToken (StringValue ''X'')]"
  by (simp add: classify_def isPrivateStock_def SOLANA_CHAIN_ID_TOKENSEARCH_def
      handleTokenSelect_def)

text \<open>
  C2, the handler at a sell selection of a token that carries the search identifier: the
  first call sets the source chain to 101, the identifier of the search index, not to
  the identifier the widget expects.
\<close>

theorem sell_carries_search_id:
  "handleTokenSelect True \<lparr>Token.address = ''X'', symbol = ''S'', name = ''N'', decimals = 6,
      logoURI = None, chainId = 101\<rparr> sell =
    [setField fromChain (NumberValue 101), setField fromToken (StringValue ''X'')]"
  by (simp add: handleTokenSelect_def)

text \<open>
  The buy side never sends the search identifier: its chain values are 1151111081099710,
  1, or the chain of a token that is not on chain 101. And the comparison of line 95 is
  against 101 only: a token that carries the widget's identifier is not taken for a
  private one.
\<close>

lemma buy_never_carries_search_id:
  "setField f (NumberValue 101) \<notin> set (handleTokenSelect ready t buy)"
  by (simp add: handleTokenSelect_def setField_def isPrivateStock_def
      SOLANA_CHAIN_ID_TOKENSEARCH_def SOLANA_CHAIN_ID_LIFI_def ETHEREUM_CHAIN_ID_def)

lemma widget_id_not_private:
  "Token.chainId t = SOLANA_CHAIN_ID_LIFI \<Longrightarrow> classify t = Ordinary"
  by (simp add: classify_def isPrivateStock_def isPublicTokenizedStock_def
      SOLANA_CHAIN_ID_TOKENSEARCH_def SOLANA_CHAIN_ID_LIFI_def ETHEREUM_CHAIN_ID_def)

text \<open>
  C3, as the handler has it: when the form reference is ready, after a buy selection of a
  token of the public tokenized equity category the form has source chain 1 and source
  token Ethereum USDC, whatever the form held before. When the form reference is not
  ready the form stays as it was.
\<close>

theorem equity_buy_forces_source:
  assumes "classify t = PublicTokenizedEquity"
  shows "(ready \<longrightarrow>
            formAfter ready form t buy fromChain = NumberValue 1
            \<and> formAfter ready form t buy fromToken =
                StringValue ''0xA0b86991c6218b36c1d19D4a2e9Eb0cE3606eB48'')
       \<and> (\<not> ready \<longrightarrow> formAfter ready form t buy = form)"
  using assms
  by (simp add: formAfter_def handleTokenSelect_def classify_def setFieldValue_def setField_def
      ETHEREUM_USDC_def ETHEREUM_CHAIN_ID_def split: if_splits)

theorem equity_buy_forces_source_witness:
  "classify \<lparr>Token.address = ''0x2d1f7226bd1f780af6b9a49dcc0ae00e8df4bdee'', symbol = ''NVDAon'',
      name = ''NVIDIA Corp'', decimals = 18, logoURI = None, chainId = 1\<rparr> = PublicTokenizedEquity
   \<and> formAfter True (config(fromChain := NumberValue 137, fromToken := StringValue ''POL''))
        \<lparr>Token.address = ''0x2d1f7226bd1f780af6b9a49dcc0ae00e8df4bdee'', symbol = ''NVDAon'',
          name = ''NVIDIA Corp'', decimals = 18, logoURI = None, chainId = 1\<rparr> buy fromChain
       = NumberValue 1
   \<and> formAfter True (config(fromChain := NumberValue 137, fromToken := StringValue ''POL''))
        \<lparr>Token.address = ''0x2d1f7226bd1f780af6b9a49dcc0ae00e8df4bdee'', symbol = ''NVDAon'',
          name = ''NVIDIA Corp'', decimals = 18, logoURI = None, chainId = 1\<rparr> buy fromToken
       = StringValue ''0xA0b86991c6218b36c1d19D4a2e9Eb0cE3606eB48''"
proof -
  have lower:
    "toLowerCase ''0x2d1f7226bd1f780af6b9a49dcc0ae00e8df4bdee'' \<noteq> toLowerCase ETHEREUM_USDC"
    by code_simp
  have c: "classify \<lparr>Token.address = ''0x2d1f7226bd1f780af6b9a49dcc0ae00e8df4bdee'',
      symbol = ''NVDAon'', name = ''NVIDIA Corp'', decimals = 18, logoURI = None, chainId = 1\<rparr>
      = PublicTokenizedEquity"
    using lower
    by (simp add: classify_def isPrivateStock_def isPublicTokenizedStock_def
        SOLANA_CHAIN_ID_TOKENSEARCH_def ETHEREUM_CHAIN_ID_def)
  show ?thesis
    using c equity_buy_forces_source [OF c, of True] by simp
qed

text \<open>
  With the form reference not ready the form keeps the source chain it had, here 137.
\<close>

theorem equity_buy_dropped_counterexample:
  "classify \<lparr>Token.address = ''0x2d1f7226bd1f780af6b9a49dcc0ae00e8df4bdee'', symbol = ''NVDAon'',
      name = ''NVIDIA Corp'', decimals = 18, logoURI = None, chainId = 1\<rparr> = PublicTokenizedEquity
   \<and> formAfter False (config(fromChain := NumberValue 137, fromToken := StringValue ''POL''))
        \<lparr>Token.address = ''0x2d1f7226bd1f780af6b9a49dcc0ae00e8df4bdee'', symbol = ''NVDAon'',
          name = ''NVIDIA Corp'', decimals = 18, logoURI = None, chainId = 1\<rparr> buy fromChain
       = NumberValue 137
   \<and> formAfter False (config(fromChain := NumberValue 137, fromToken := StringValue ''POL''))
        \<lparr>Token.address = ''0x2d1f7226bd1f780af6b9a49dcc0ae00e8df4bdee'', symbol = ''NVDAon'',
          name = ''NVIDIA Corp'', decimals = 18, logoURI = None, chainId = 1\<rparr> buy fromToken
       = StringValue ''POL''"
proof -
  have lower:
    "toLowerCase ''0x2d1f7226bd1f780af6b9a49dcc0ae00e8df4bdee'' \<noteq> toLowerCase ETHEREUM_USDC"
    by code_simp
  show ?thesis
    using lower
    by (simp add: classify_def isPrivateStock_def isPublicTokenizedStock_def
        SOLANA_CHAIN_ID_TOKENSEARCH_def ETHEREUM_CHAIN_ID_def formAfter_def
        handleTokenSelect_def)
qed

text \<open>
  C6. A sell selection, whatever the token and whether or not the form reference is
  ready, makes calls for the source chain and source token fields only, and the
  destination chain and destination token of the form stay as they were.
\<close>

theorem sell_leaves_destination:
  "set (map field (handleTokenSelect ready t sell)) \<subseteq> {fromChain, fromToken}
   \<and> formAfter ready form t sell toChain = form toChain
   \<and> formAfter ready form t sell toToken = form toToken"
  by (simp add: formAfter_def handleTokenSelect_def setFieldValue_def setField_def)

section \<open>Properties of the aggregator\<close>

subsection \<open>Validation, and the shape of an accepted batch\<close>

lemma trim_empty_iff: "trim s = [] \<longleftrightarrow> blank s"
proof -
  have "dropWhile isWhiteSpace s = [] \<longleftrightarrow> (\<forall>c\<in>set s. isWhiteSpace c)"
    by simp
  moreover have "dropWhile isWhiteSpace s \<noteq> [] \<Longrightarrow>
      dropWhile isWhiteSpace (rev (dropWhile isWhiteSpace s)) \<noteq> []"
  proof -
    assume ne: "dropWhile isWhiteSpace s \<noteq> []"
    then have "\<not> isWhiteSpace (hd (dropWhile isWhiteSpace s))"
      by (rule hd_dropWhile)
    moreover have "hd (dropWhile isWhiteSpace s) \<in> set (rev (dropWhile isWhiteSpace s))"
      using ne by simp
    ultimately show ?thesis
      by (metis dropWhile_eq_Nil_conv)
  qed
  ultimately show ?thesis
    by (auto simp: trim_def blank_def list_all_iff dest: set_dropWhileD)
qed

lemma nonEmptyString_iff: "nonEmptyString x \<longleftrightarrow> \<not> notStringOrBlank x"
  by (cases x) (simp_all add: trim_empty_iff [symmetric])

lemma list_all_nonEmptyString: "list_all nonEmptyString xs \<longleftrightarrow> \<not> list_ex notStringOrBlank xs"
  by (simp add: list_all_iff list_ex_iff nonEmptyString_iff)

lemma POST_valid:
  assumes "destructureAddresses b = Returns (Some (JArray xs))" and "xs \<noteq> []"
    and "list_all nonEmptyString xs"
  shows "POST world (Returns b) =
     \<lparr>reply = \<lparr>status = 200, chainId = 101,
                tokens = map fst (tokensWithData world (map stringOf xs)),
                error = None, cacheControl = Some ''no-store, no-cache, must-revalidate''\<rparr>,
       sent = concat (map (fst \<circ> snd) (tokensWithData world (map stringOf xs))),
       written = concat (map (snd \<circ> snd) (tokensWithData world (map stringOf xs)))\<rparr>"
  using assms by (simp add: POST_def Let_def)

lemma length_tokensWithData: "length (tokensWithData world addrs) = length addrs"
  by (simp add: tokensWithData_def)

lemma nth_tokensWithData:
  "i < length addrs \<Longrightarrow> tokensWithData world addrs ! i = tokenWork (world i) (addrs ! i)"
  by (simp add: tokensWithData_def nth_enumerate_eq)

lemma address_tokenWork: "tokenData.address (fst (tokenWork p addr)) = addr"
  by (simp add: tokenWork_def Let_def split: outcome.splits prod.splits)

lemma map_address_tokensWithData:
  "map (tokenData.address \<circ> fst) (tokensWithData world addrs) = addrs"
  by (rule nth_equalityI) (simp_all add: length_tokensWithData nth_tokensWithData address_tokenWork)

lemma yfinanceFallback_totalFailure:
  assumes "importYahooFinance p = Throws \<or> (\<forall>ticker. failed (yfQuote p ticker))"
  shows "fst (yfinanceFallback p addr cur) = cur"
proof -
  have q: "\<And>t q. yfQuote p t = Returns (Some q) \<Longrightarrow> importYahooFinance p = Throws"
    using assms by (metis failed.simps(3))
  show ?thesis
    by (auto simp: yfinanceFallback_def split: outcome.splits option.splits bool.splits dest: q)
qed

lemma tokenWork_totalFailure:
  assumes "totalFailure p addr"
  shows "fst (tokenWork p addr) = bareRecord addr"
proof (cases "fetchTokenPriceByAddress p 101 addr")
  case Throws
  then show ?thesis by (simp add: tokenWork_def bareRecord_def)
next
  case (Returns cg)
  with assms have cg: "cg = None"
    by (cases cg) (simp_all add: totalFailure_def)
  have fb: "fst (yfinanceFallback p addr None) = None"
    using assms by (intro yfinanceFallback_totalFailure) (simp add: totalFailure_def)
  show ?thesis
    using Returns cg fb
    by (auto simp: tokenWork_def bareRecord_def fetchJupiterLiquidity_def
        fetchJupiterMarketCap_def split: prod.splits)
qed


lemma nth_tokens_valid:
  assumes "destructureAddresses b = Returns (Some (JArray xs))" and "xs \<noteq> []"
    and "list_all nonEmptyString xs" and "i < length xs"
  shows "tokens (reply (POST world (Returns b))) ! i = fst (tokenWork (world i) (stringOf (xs ! i)))"
  using assms by (simp add: POST_valid length_tokensWithData nth_tokensWithData)


lemma threeAddresses_valid:
  "destructureAddresses threeAddresses
     = Returns (Some (JArray [JString ''A1'', JString ''B2'', JString ''C3'']))"
  "[JString ''A1'', JString ''B2'', JString ''C3''] \<noteq> []"
  "list_all nonEmptyString [JString ''A1'', JString ''B2'', JString ''C3'']"
  by (simp_all add: threeAddresses_def trim_def isWhiteSpace_def)

lemma yfinanceFallback_other_fields:
  "yfinanceFallback (p\<lparr>fetchTokenPriceByAddress := f\<rparr>) addr cur = yfinanceFallback p addr cur"
  by (simp add: yfinanceFallback_def
      cong: outcome.case_cong option.case_cong bool.case_cong if_cong)

text \<open>
  C7, as the route has it. When the \<open>addresses\<close> value read from the body is not a
  non-empty array, or is an array with an entry that is not a string or is blank, the
  reply has status 400, an error message and no tokens, and no request has been sent to
  a provider. The value can be read from every body but \<open>null\<close>. A body that is \<open>null\<close>, or
  that does not parse, is answered with status 500, the message "Internal server error"
  and no tokens, and no request has been sent to a provider either.
\<close>

theorem invalid_request_rejected:
  "(\<forall>v. destructureAddresses b = Returns v \<and> (notNonEmptyArray v \<or> hasBadEntry v) \<longrightarrow>
        status (reply (POST world (Returns b))) = 400
        \<and> error (reply (POST world (Returns b))) \<noteq> None
        \<and> tokens (reply (POST world (Returns b))) = []
        \<and> sent (POST world (Returns b)) = [])
   \<and> (b \<noteq> JNull \<longrightarrow> (\<exists>v. destructureAddresses b = Returns v))
   \<and> status (reply (POST world (Returns JNull))) = 500
   \<and> error (reply (POST world (Returns JNull))) = Some ''Internal server error''
   \<and> tokens (reply (POST world (Returns JNull))) = []
   \<and> sent (POST world (Returns JNull)) = []
   \<and> status (reply (POST world Throws)) = 500
   \<and> error (reply (POST world Throws)) = Some ''Internal server error''
   \<and> tokens (reply (POST world Throws)) = []
   \<and> sent (POST world Throws) = []"
proof -
  have bad: "status (reply (POST world (Returns b))) = 400
        \<and> error (reply (POST world (Returns b))) \<noteq> None
        \<and> tokens (reply (POST world (Returns b))) = []
        \<and> sent (POST world (Returns b)) = []"
    if d: "destructureAddresses b = Returns v" and v: "notNonEmptyArray v \<or> hasBadEntry v" for v
  proof (cases v)
    case None
    with d show ?thesis by (simp add: POST_def invalidAddresses_def)
  next
    case (Some j)
    show ?thesis
    proof (cases j)
      case (JArray xs)
      with Some v have "xs = [] \<or> \<not> list_all nonEmptyString xs"
        by (simp add: notNonEmptyArray_def hasBadEntry_def list_all_nonEmptyString)
      with Some JArray d show ?thesis
        by (auto simp: POST_def invalidAddresses_def emptyAddress_def)
    qed (use Some d in \<open>simp_all add: POST_def invalidAddresses_def\<close>)
  qed
  have readable: "b \<noteq> JNull \<longrightarrow> (\<exists>v. destructureAddresses b = Returns v)"
    by (cases b) simp_all
  have null: "status (reply (POST world (Returns JNull))) = 500
      \<and> error (reply (POST world (Returns JNull))) = Some ''Internal server error''
      \<and> tokens (reply (POST world (Returns JNull))) = []
      \<and> sent (POST world (Returns JNull)) = []"
    by (simp add: POST_def internalError_def)
  have unparsed: "status (reply (POST world Throws)) = 500
      \<and> error (reply (POST world Throws)) = Some ''Internal server error''
      \<and> tokens (reply (POST world Throws)) = []
      \<and> sent (POST world Throws) = []"
    by (simp add: POST_def internalError_def)
  from bad readable null unparsed show ?thesis by blast
qed

theorem invalid_request_rejected_witness:
  "status (reply (POST steady
      (Returns (JObject [(''addresses'', JArray [JString ''0xAAA'', JString []])])))) = 400
   \<and> tokens (reply (POST steady
      (Returns (JObject [(''addresses'', JArray [JString ''0xAAA'', JString []])])))) = []
   \<and> sent (POST steady
      (Returns (JObject [(''addresses'', JArray [JString ''0xAAA'', JString []])]))) = []"
proof -
  let ?b = "JObject [(''addresses'', JArray [JString ''0xAAA'', JString []])]"
  have d: "destructureAddresses ?b = Returns (Some (JArray [JString ''0xAAA'', JString []]))
      \<and> (notNonEmptyArray (Some (JArray [JString ''0xAAA'', JString []]))
          \<or> hasBadEntry (Some (JArray [JString ''0xAAA'', JString []])))"
    by (simp add: hasBadEntry_def blank_def)
  show ?thesis
    using invalid_request_rejected [of ?b steady, THEN conjunct1, rule_format, OF d] by simp
qed

text \<open>
  A request whose body is \<open>null\<close> has no array of addresses, and is answered with 500, not
  with 400: the destructuring of line 76 throws and the catch of line 195 replies.
\<close>

theorem null_body_counterexample:
  "destructureAddresses JNull = Throws
   \<and> status (reply (POST steady (Returns JNull))) = 500
   \<and> status (reply (POST steady (Returns JNull))) \<noteq> 400
   \<and> error (reply (POST steady (Returns JNull))) = Some ''Internal server error''"
  by (simp add: POST_def internalError_def)

text \<open>
  C4. An accepted batch is answered with status 200 and one record per address, in the
  order of the addresses. A position where the providers fail totally gets the record
  with volume 0 and no optional field. The record of a position depends on the batch
  and on what the providers answer at that position only: whatever happens at the other
  positions, it is the same.
\<close>

theorem batch_records_isolated:
  assumes "destructureAddresses b = Returns (Some (JArray xs))" and "xs \<noteq> []"
    and "list_all nonEmptyString xs"
  shows "status (reply (POST world (Returns b))) = 200
    \<and> length (tokens (reply (POST world (Returns b)))) = length xs
    \<and> map tokenData.address (tokens (reply (POST world (Returns b)))) = map stringOf xs
    \<and> (\<forall>i<length xs. totalFailure (world i) (stringOf (xs ! i)) \<longrightarrow>
          tokens (reply (POST world (Returns b))) ! i = bareRecord (stringOf (xs ! i)))
    \<and> (\<forall>j<length xs. \<forall>world'. world' j = world j \<longrightarrow>
          tokens (reply (POST world' (Returns b))) ! j
            = tokens (reply (POST world (Returns b))) ! j)"
proof -
  have "status (reply (POST world (Returns b))) = 200"
    using assms by (simp add: POST_valid)
  moreover have "length (tokens (reply (POST world (Returns b)))) = length xs"
    using assms by (simp add: POST_valid length_tokensWithData)
  moreover have "map tokenData.address (tokens (reply (POST world (Returns b)))) = map stringOf xs"
    using assms by (simp add: POST_valid map_address_tokensWithData)
  moreover have "\<forall>i<length xs. totalFailure (world i) (stringOf (xs ! i)) \<longrightarrow>
          tokens (reply (POST world (Returns b))) ! i = bareRecord (stringOf (xs ! i))"
    using assms by (simp add: nth_tokens_valid tokenWork_totalFailure)
  moreover have "\<forall>j<length xs. \<forall>world'. world' j = world j \<longrightarrow>
          tokens (reply (POST world' (Returns b))) ! j
            = tokens (reply (POST world (Returns b))) ! j"
    using assms by (simp add: nth_tokens_valid)
  ultimately show ?thesis by blast
qed

theorem batch_records_isolated_witness:
  "status (reply (POST ((\<lambda>i. listed)(1 := down)) (Returns threeAddresses))) = 200
   \<and> map tokenData.address (tokens (reply (POST ((\<lambda>i. listed)(1 := down)) (Returns threeAddresses))))
       = [''A1'', ''B2'', ''C3'']
   \<and> tokens (reply (POST ((\<lambda>i. listed)(1 := down)) (Returns threeAddresses))) ! 1
       = bareRecord ''B2''
   \<and> tokens (reply (POST ((\<lambda>i. listed)(1 := down)) (Returns threeAddresses))) ! 0
       = tokens (reply (POST (\<lambda>i. listed) (Returns threeAddresses))) ! 0
   \<and> tokens (reply (POST ((\<lambda>i. listed)(1 := down)) (Returns threeAddresses))) ! 2
       = tokens (reply (POST (\<lambda>i. listed) (Returns threeAddresses))) ! 2"
proof -
  let ?xs = "[JString ''A1'', JString ''B2'', JString ''C3'']"
  let ?w = "(\<lambda>i. listed)(1 := down)"
  note t = batch_records_isolated [OF threeAddresses_valid, of ?w]
  note u = batch_records_isolated [OF threeAddresses_valid, of "\<lambda>i. listed"]
  have f: "totalFailure (?w 1) (stringOf (?xs ! 1))"
    by (simp add: totalFailure_def down_def)
  have l1: "(1::nat) < length ?xs" and l0: "(0::nat) < length ?xs" and l2: "(2::nat) < length ?xs"
    by simp_all
  have s: "status (reply (POST ?w (Returns threeAddresses))) = 200"
    using t by (rule conjunct1)
  have m: "map tokenData.address (tokens (reply (POST ?w (Returns threeAddresses)))) = map stringOf ?xs"
    using t [THEN conjunct2, THEN conjunct2] by (rule conjunct1)
  have one: "tokens (reply (POST ?w (Returns threeAddresses))) ! 1 = bareRecord (stringOf (?xs ! 1))"
    using t [THEN conjunct2, THEN conjunct2, THEN conjunct2, THEN conjunct1, rule_format, OF l1 f] .
  have zero: "tokens (reply (POST ?w (Returns threeAddresses))) ! 0
       = tokens (reply (POST (\<lambda>i. listed) (Returns threeAddresses))) ! 0"
    using u [THEN conjunct2, THEN conjunct2, THEN conjunct2, THEN conjunct2, rule_format, OF l0, of ?w]
    by simp
  have two: "tokens (reply (POST ?w (Returns threeAddresses))) ! 2
       = tokens (reply (POST (\<lambda>i. listed) (Returns threeAddresses))) ! 2"
    using u [THEN conjunct2, THEN conjunct2, THEN conjunct2, THEN conjunct2, rule_format, OF l2, of ?w]
    by simp
  from s m one zero two show ?thesis by simp
qed

text \<open>
  C10. When the price index gives a market cap of 0 for a token of an accepted batch,
  the token's record has neither \<open>marketCap\<close> nor \<open>marketCapFormatted\<close>, and it is the very
  record the token would get had the price index given no market cap.
\<close>

theorem zero_market_cap_absent:
  assumes "destructureAddresses b = Returns (Some (JArray xs))" and "xs \<noteq> []"
    and "list_all nonEmptyString xs" and "i < length xs"
    and "fetchTokenPriceByAddress (world i) 101 (stringOf (xs ! i)) = Returns (Some d)"
    and "market_cap d = Some (Num 0)"
  shows "marketCap (tokens (reply (POST world (Returns b))) ! i) = None
     \<and> marketCapFormatted (tokens (reply (POST world (Returns b))) ! i) = None
     \<and> (\<forall>world'.
          world' i = (world i)\<lparr>fetchTokenPriceByAddress :=
                        (\<lambda>c a. Returns (Some (d\<lparr>market_cap := None\<rparr>)))\<rparr> \<longrightarrow>
          tokens (reply (POST world' (Returns b))) ! i
            = tokens (reply (POST world (Returns b))) ! i)"
proof -
  let ?a = "stringOf (xs ! i)"
  have cap: "marketCap (fst (tokenWork (world i) ?a)) = None"
    using assms(5,6)
    by (simp add: tokenWork_def Let_def fetchJupiterMarketCap_def split: prod.splits)
  have fmt: "marketCapFormatted (fst (tokenWork (world i) ?a)) = None"
    using assms(5)
    by (simp add: tokenWork_def Let_def fetchJupiterMarketCap_def split: prod.splits)
  have same: "fst (tokenWork ((world i)\<lparr>fetchTokenPriceByAddress :=
                        (\<lambda>c a. Returns (Some (d\<lparr>market_cap := None\<rparr>)))\<rparr>) ?a)
      = fst (tokenWork (world i) ?a)"
    using assms(5,6)
    by (simp add: tokenWork_def Let_def fetchJupiterMarketCap_def fetchJupiterLiquidity_def
        yfinanceFallback_other_fields split: prod.splits)
  show ?thesis
    using assms(1-4) cap fmt same by (simp add: nth_tokens_valid)
qed

theorem zero_market_cap_absent_witness:
  "marketCap (tokens (reply (POST (\<lambda>i. equity) (Returns threeAddresses))) ! 0) = None
   \<and> marketCapFormatted (tokens (reply (POST (\<lambda>i. equity) (Returns threeAddresses))) ! 0) = None
   \<and> tokens (reply (POST
        (\<lambda>i. equity\<lparr>fetchTokenPriceByAddress := (\<lambda>c a. Returns (Some
           \<lparr>total_volume = Some (Num 1000), market_cap = None,
            price_change_percentage_24h = None\<rparr>))\<rparr>)
        (Returns threeAddresses))) ! 0
       = tokens (reply (POST (\<lambda>i. equity) (Returns threeAddresses))) ! 0"
proof -
  let ?d = "\<lparr>total_volume = Some (Num 1000), market_cap = Some (Num 0),
          price_change_percentage_24h = None\<rparr>"
  let ?w = "\<lambda>i::nat. equity\<lparr>fetchTokenPriceByAddress := (\<lambda>c a. Returns (Some
           \<lparr>total_volume = Some (Num 1000), market_cap = None,
            price_change_percentage_24h = None\<rparr>))\<rparr>"
  have d: "fetchTokenPriceByAddress ((\<lambda>i. equity) 0) 101
       (stringOf ([JString ''A1'', JString ''B2'', JString ''C3''] ! 0)) = Returns (Some ?d)"
    by (simp add: equity_def)
  have z: "market_cap ?d = Some (Num 0)"
    and l: "(0::nat) < length [JString ''A1'', JString ''B2'', JString ''C3'']"
    by simp_all
  note t = zero_market_cap_absent [where world = "\<lambda>i. equity" and i = 0 and d = ?d,
      OF threeAddresses_valid l d z]
  have w: "?w 0 = ((\<lambda>i. equity) 0)\<lparr>fetchTokenPriceByAddress :=
                        (\<lambda>c a. Returns (Some (?d\<lparr>market_cap := None\<rparr>)))\<rparr>"
    by simp
  have same: "tokens (reply (POST ?w (Returns threeAddresses))) ! 0
       = tokens (reply (POST (\<lambda>i. equity) (Returns threeAddresses))) ! 0"
    using t [THEN conjunct2, THEN conjunct2, rule_format, of ?w, OF w] .
  show ?thesis
    using t [THEN conjunct1] t [THEN conjunct2, THEN conjunct1] same by simp
qed

subsection \<open>The 24h price change\<close>












subsection \<open>Market-cap formatting\<close>

lemma digitValue_digitChar: "d < 10 \<Longrightarrow> digitValue (digitChar d) = d"
  by (simp add: digitValue_def digitChar_def)

lemma decimalValue_digits: "decimalValue (digits n) = n"
proof (induction n rule: digits.induct)
  case (1 n)
  show ?case
  proof (cases "n < 10")
    case True
    then show ?thesis
      by (subst digits.simps) (simp add: decimalValue_def digitValue_digitChar)
  next
    case False
    with 1 have "decimalValue (digits (n div 10)) = n div 10" by simp
    with False show ?thesis
      by (subst digits.simps) (simp add: decimalValue_def digitValue_digitChar)
  qed
qed

text \<open>Rounding to a double: the binade of a rational, and the nearest multiple in it.\<close>

lemma bitLength_upper: "n < 2 ^ bitLength n"
proof (induction n rule: bitLength.induct)
  case (1 n)
  show ?case
  proof (cases "n = 0")
    case True
    then show ?thesis by (subst bitLength.simps) simp
  next
    case False
    with 1 have "n div 2 < 2 ^ bitLength (n div 2)" by simp
    then have "n < 2 * 2 ^ bitLength (n div 2)" by linarith
    with False show ?thesis by (subst bitLength.simps) simp
  qed
qed

lemma bitLength_lower: "0 < n \<Longrightarrow> 2 ^ bitLength n \<le> 2 * n"
proof (induction n rule: bitLength.induct)
  case (1 n)
  show ?case
  proof (cases "n div 2 = 0")
    case True
    with 1(2) have "n = 1" by (simp add: div_eq_0_iff)
    then show ?thesis
      by (simp add: bitLength.simps [of "Suc 0"] bitLength.simps [of 0])
  next
    case False
    with 1 have "2 ^ bitLength (n div 2) \<le> 2 * (n div 2)" by simp
    then have "2 * 2 ^ bitLength (n div 2) \<le> 2 * n" by linarith
    with 1(2) show ?thesis by (subst bitLength.simps) simp
  qed
qed

lemma ilog2_bounds:
  assumes "1 \<le> a"
  shows "0 \<le> ilog2 a" and "2 ^ nat (ilog2 a) \<le> a" and "a < 2 ^ (nat (ilog2 a) + 1)"
proof -
  let ?N = "nat \<lfloor>a\<rfloor>"
  have N: "0 < ?N" using assms by simp
  have b: "0 < bitLength ?N"
    using N by (subst bitLength.simps) simp
  have il: "ilog2 a = int (bitLength ?N) - 1"
    using assms by (simp add: ilog2_def)
  show "0 \<le> ilog2 a" using il b by simp
  have nat_il: "nat (ilog2 a) = bitLength ?N - 1"
    using il by simp
  have "2 * 2 ^ (bitLength ?N - 1) = (2::nat) ^ bitLength ?N"
    using b by (cases "bitLength ?N") simp_all
  with bitLength_lower [OF N] have "2 ^ (bitLength ?N - 1) \<le> ?N" by linarith
  then have "(2::rat) ^ (bitLength ?N - 1) \<le> of_nat ?N"
    by (metis of_nat_le_iff of_nat_numeral of_nat_power)
  also have "\<dots> \<le> a" using assms by simp
  finally show "2 ^ nat (ilog2 a) \<le> a" by (simp add: nat_il)
  have "?N + 1 \<le> 2 ^ bitLength ?N"
    using bitLength_upper [of ?N] by linarith
  then have "(of_nat (?N + 1) :: rat) \<le> 2 ^ bitLength ?N"
    by (metis of_nat_le_iff of_nat_numeral of_nat_power)
  moreover have "a < of_nat (?N + 1)"
    using assms by simp linarith
  ultimately have "a < 2 ^ bitLength ?N" by linarith
  moreover have "nat (ilog2 a) + 1 = bitLength ?N" using nat_il b by simp
  ultimately show "a < 2 ^ (nat (ilog2 a) + 1)" by simp
qed

lemma ilog2_unique:
  assumes "(2::rat) ^ k \<le> a" and "a < 2 ^ (k + 1)"
  shows "ilog2 a = int k"
proof -
  have a1: "1 \<le> a"
    using assms(1) one_le_power [of "2::rat" k] by linarith
  note b = ilog2_bounds [OF a1]
  let ?E = "nat (ilog2 a)"
  have "(2::rat) ^ k < 2 ^ (?E + 1)" using assms(1) b(3) by linarith
  then have "k < ?E + 1" by (rule power_less_imp_less_exp [rotated]) simp
  moreover have "(2::rat) ^ ?E < 2 ^ (k + 1)" using assms(2) b(2) by linarith
  then have "?E < k + 1" by (rule power_less_imp_less_exp [rotated]) simp
  ultimately have "?E = k" by simp
  with b(1) show ?thesis by simp
qed

lemma roundHalfEven_near: "\<bar>of_int (roundHalfEven z) - z\<bar> \<le> 1 / 2"
proof -
  have "of_int \<lfloor>z\<rfloor> \<le> z" "z < of_int \<lfloor>z\<rfloor> + 1" by linarith+
  then show ?thesis
    unfolding roundHalfEven_def by (simp split: if_splits)
qed



lemma pow2_pos: "0 < pow2 e"
  by (simp add: pow2_def)

lemma roundToDouble_binade:
  assumes "(2::rat) ^ k \<le> r" and "r < 2 ^ (k + 1)" and "k \<le> 1000"
  shows "roundToDouble r
     = Num (of_int (roundHalfEven (r / pow2 (int k - 52))) * pow2 (int k - 52))"
proof -
  let ?p = "pow2 (int k - 52)"
  let ?m = "roundHalfEven (r / ?p)"
  have r0: "0 < r"
    using assms(1) zero_less_power [of "2::rat" k] by linarith
  have il: "ilog2 \<bar>r\<bar> = int k"
    using r0 assms(1,2) by (simp add: ilog2_unique)
  have e: "max (ilog2 \<bar>r\<bar> - 52) (- 1074) = int k - 52"
    using il by simp
  have p0: "0 < ?p" by (rule pow2_pos)
  have ple: "?p \<le> 2 ^ k"
  proof (cases "52 \<le> int k")
    case True
    then have "?p = 2 ^ (k - 52)" by (simp add: pow2_def nat_diff_distrib)
    also have "\<dots> \<le> 2 ^ k" by (rule power_increasing) simp_all
    finally show ?thesis .
  next
    case False
    then have "?p = 1 / 2 ^ nat (52 - int k)" by (simp add: pow2_def)
    also have "\<dots> \<le> 1" by simp
    also have "\<dots> \<le> 2 ^ k" by simp
    finally show ?thesis .
  qed
  have "of_int ?m \<le> r / ?p + 1 / 2"
    using roundHalfEven_near [of "r / ?p"] by linarith
  then have "of_int ?m * ?p \<le> (r / ?p + 1 / 2) * ?p"
    using p0 by (simp add: mult_right_mono)
  also have "\<dots> = r + ?p / 2"
    using p0 by (simp add: field_simps)
  also have "\<dots> < 2 ^ (k + 1) + 2 ^ k"
    using assms(2) ple p0 by linarith
  also have "\<dots> \<le> 2 ^ (k + 2)" by simp
  also have "\<dots> \<le> (2::rat) ^ 1024"
    using assms(3) by (intro power_increasing) simp_all
  finally have d: "\<not> 2 ^ 1024 \<le> of_int ?m * ?p" by simp
  show ?thesis
    using r0 d unfolding roundToDouble_def Let_def e
    by (simp only: abs_of_pos [OF r0] if_False) simp
qed


lemma roundHalfEven_eqI:
  assumes "\<bar>z - of_int m\<bar> < 1 / 2"
  shows "roundHalfEven z = m"
proof (cases "of_int m \<le> z")
  case True
  with assms have "\<lfloor>z\<rfloor> = m" by (intro floor_unique) simp_all
  with assms True show ?thesis by (simp add: roundHalfEven_def)
next
  case False
  with assms have f: "\<lfloor>z\<rfloor> = m - 1" by (intro floor_unique) simp_all
  from assms False have "1 / 2 < z - of_int (m - 1)" by simp
  with f show ?thesis by (simp add: roundHalfEven_def)
qed



lemma quotient_rounds_to_1e21: "roundToDouble (999999999999999945575230987042816 / 1000000000000) = Num (10 ^ 21)"
proof -
  have "roundHalfEven ((999999999999999945575230987042816 / 1000000000000) / pow2 (int 69 - 52))
      = 7629394531250000"
    by (rule roundHalfEven_eqI) (simp add: pow2_def)
  moreover have "roundToDouble (999999999999999945575230987042816 / 1000000000000)
      = Num (of_int (roundHalfEven ((999999999999999945575230987042816 / 1000000000000) / pow2 (int 69 - 52)))
             * pow2 (int 69 - 52))"
    by (rule roundToDouble_binade) simp_all
  ultimately show ?thesis
    by (simp add: pow2_def)
qed

lemma digitChar_simps:
  "digitChar 0 = CHR ''0''" "digitChar 1 = CHR ''1''" "digitChar 2 = CHR ''2''"
  "digitChar 3 = CHR ''3''" "digitChar 4 = CHR ''4''" "digitChar 5 = CHR ''5''"
  "digitChar 6 = CHR ''6''" "digitChar 7 = CHR ''7''" "digitChar 8 = CHR ''8''"
  "digitChar 9 = CHR ''9''" "digitChar (Suc 0) = CHR ''1''"
  by code_simp+


lemma formatMarketCap_T:
  "1000000000000 \<le> x \<Longrightarrow>
     formatMarketCap ts (Num x) = ''$'' @ toFixed0 ts (roundToDouble (x / 1000000000000)) @ ''T''"
  by (simp add: formatMarketCap_def)

lemma formatMarketCap_exponent: "formatMarketCap sampleToString (Num 999999999999999945575230987042816) = ''$1e+21T''"
proof -
  have f: "formatMarketCap sampleToString (Num 999999999999999945575230987042816)
      = ''$'' @ toFixed0 sampleToString
           (roundToDouble (999999999999999945575230987042816 / 1000000000000)) @ ''T''"
    by (rule formatMarketCap_T) simp
  have t: "toFixed0 sampleToString (Num (10 ^ 21)) = ''1e+21''"
    by (simp add: toFixed0_def sampleToString_def)
  show ?thesis
    unfolding f quotient_rounds_to_1e21 t by simp
qed




lemma floor_rat_numeral: "\<lfloor>numeral a / numeral b :: rat\<rfloor> = numeral a div numeral b"
  using floor_divide_of_int_eq [of "numeral a" "numeral b", where ?'a = rat] by simp



text \<open>Below 1 the rounding gives the double that the literal \<open>0.1\<close> denotes.\<close>

lemma roundToDouble_tenth:
  "roundToDouble (1 / 10) = Num (3602879701896397 / 36028797018963968)"
proof -
  have il: "ilog2 (1 / 10) = - 4"
    by (simp add: ilog2_def bitLength.simps)
  have "roundHalfEven ((1 / 10) / pow2 (- 56)) = 7205759403792794"
    by (rule roundHalfEven_eqI) (simp add: pow2_def)
  then show ?thesis
    by (simp add: roundToDouble_def il pow2_def)
qed

text \<open>
  The double \<open>2^93 + 2^42\<close>: the exact quotient rounds to 9903520314283047, the double
  quotient is 9903520314283046.
\<close>

lemma formatMarketCap_above_2_93:
  "formatMarketCap sampleToString (Num 9903520314283046597239504896) = ''$9903520314283046T''
   \<and> nat \<lfloor>(9903520314283046597239504896::rat) / 10 ^ 12 + 1 / 2\<rfloor> = 9903520314283047"
proof -
  have m: "roundHalfEven ((9903520314283046597239504896 / 1000000000000) / pow2 (int 53 - 52))
      = 4951760157141523"
    by (rule roundHalfEven_eqI) (simp add: pow2_def)
  have "roundToDouble (9903520314283046597239504896 / 1000000000000)
      = Num (of_int (roundHalfEven ((9903520314283046597239504896 / 1000000000000) / pow2 (int 53 - 52)))
             * pow2 (int 53 - 52))"
    by (rule roundToDouble_binade) simp_all
  with m have q: "roundToDouble (9903520314283046597239504896 / 1000000000000)
      = Num 9903520314283046"
    by (simp add: pow2_def)
  have f: "formatMarketCap sampleToString (Num 9903520314283046597239504896)
      = ''$'' @ toFixed0 sampleToString
           (roundToDouble (9903520314283046597239504896 / 1000000000000)) @ ''T''"
    by (rule formatMarketCap_T) simp
  have t: "toFixed0 sampleToString (Num 9903520314283046) = ''9903520314283046''"
    by (simp add: toFixed0_def floor_rat_numeral digits.simps digitChar_simps)
  have a: "formatMarketCap sampleToString (Num 9903520314283046597239504896) = ''$9903520314283046T''"
    unfolding f q t by simp
  have "\<lfloor>(9903520314283046597239504896::rat) / 10 ^ 12 + 1 / 2\<rfloor> = 9903520314283047"
    by (rule floor_unique) simp_all
  with a show ?thesis by simp
qed




end
